theory Spec2Isabelle
  imports Main "HOL-Library.Word"
begin

unbundle bit_operations_syntax

section \<open>Data model of the mmt4d micro-kernel (runtime/src/iree/builtins/ukernel/mmt4d.c)\<close>

text \<open>
  The declarations of \<^verbatim>\<open>mmt4d.h\<close> are not part of the sources at hand; the types below
  follow the way \<^verbatim>\<open>mmt4d.c\<close> uses them. The target is taken to be a 64-bit one:
  pointers and \<^verbatim>\<open>iree_ukernel_ssize_t\<close> are 64-bit words (the comment in the validation
  routine says that \<^verbatim>\<open>K\<close> is an int64), \<^verbatim>\<open>int\<close> is 32 bits wide.
\<close>

text \<open>
  Modelled from the spec: the enum \<^verbatim>\<open>iree_ukernel_mmt4d_type_t\<close> (declared in mmt4d.h).
  The two supported tuples are named in the \<^verbatim>\<open>switch\<close> of the validation routine; every
  other value of the enum's underlying integer is kept as \<open>type_other\<close>.
\<close>

datatype iree_ukernel_mmt4d_type_t =
    iree_ukernel_mmt4d_type_f32f32f32
  | iree_ukernel_mmt4d_type_i8i8i32
  | iree_ukernel_mmt4d_type_other "32 word"

text \<open>
  Modelled from the spec: the enum \<^verbatim>\<open>iree_ukernel_mmt4d_status_t\<close> (declared in mmt4d.h),
  a closed enumeration of five tags. A status value that is none of the five enumerators
  (the status is a plain C integer) is kept as \<open>status_other\<close> together with its value.
\<close>

datatype iree_ukernel_mmt4d_status_t =
    iree_ukernel_mmt4d_status_ok
  | iree_ukernel_mmt4d_status_bad_flags
  | iree_ukernel_mmt4d_status_bad_type
  | iree_ukernel_mmt4d_status_unsupported_huge_or_negative_dimension
  | iree_ukernel_mmt4d_status_unsupported_generic_tile_size
  | iree_ukernel_mmt4d_status_other int

text \<open>
  Modelled from the spec: the struct \<^verbatim>\<open>iree_ukernel_mmt4d_params_t\<close> (declared in mmt4d.h).
  Buffers are byte addresses; strides and the grid extents \<open>M, N, K\<close> are signed 64-bit
  values; the tile shape \<open>M0, N0, K0\<close> is made of signed 32-bit values (the driver narrows
  them to \<^verbatim>\<open>int16_t\<close>); \<open>flags\<close> is an unsigned 32-bit bitset.
\<close>

record iree_ukernel_mmt4d_params_t =
  type :: iree_ukernel_mmt4d_type_t
  flags :: "32 word"
  lhs_buffer :: "64 word"
  rhs_buffer :: "64 word"
  out_buffer :: "64 word"
  lhs_stride :: "64 word"
  rhs_stride :: "64 word"
  out_stride :: "64 word"
  M :: "64 word"
  N :: "64 word"
  K :: "64 word"
  M0 :: "32 word"
  N0 :: "32 word"
  K0 :: "32 word"

text \<open>
  Modelled from the spec: the macro \<^verbatim>\<open>IREE_VMVX_MATMUL_FLAG_ACCUMULATE\<close>, the only flag
  bit that is defined.
\<close>

definition IREE_VMVX_MATMUL_FLAG_ACCUMULATE :: "32 word" where
  "IREE_VMVX_MATMUL_FLAG_ACCUMULATE = 1"

section \<open>Parameter validation\<close>

text \<open>
  \<^verbatim>\<open>#define OUTSIDE_UINT_RANGE(value, bits) (((value) < 0) || ((value) >> (bits)))\<close>
  on a signed operand: the comparison is signed, and the shift is only evaluated for a
  non-negative value.
\<close>

definition OUTSIDE_UINT_RANGE :: "'a::len word \<Rightarrow> nat \<Rightarrow> bool" where
  "OUTSIDE_UINT_RANGE v bits \<longleftrightarrow> v <s 0 \<or> signed_drop_bit bits v \<noteq> 0"

definition iree_ukernel_mmt4d_validate ::
  "iree_ukernel_mmt4d_params_t \<Rightarrow> iree_ukernel_mmt4d_status_t" where
  "iree_ukernel_mmt4d_validate params =
    (if flags params AND NOT IREE_VMVX_MATMUL_FLAG_ACCUMULATE \<noteq> 0
     then iree_ukernel_mmt4d_status_bad_flags
     else case type params of
         iree_ukernel_mmt4d_type_other v \<Rightarrow> iree_ukernel_mmt4d_status_bad_type
       | _ \<Rightarrow>
         (if OUTSIDE_UINT_RANGE (M params) 31 \<or> OUTSIDE_UINT_RANGE (M params) 31 \<or>
             OUTSIDE_UINT_RANGE (K params) 31 \<or> OUTSIDE_UINT_RANGE (M0 params) 15 \<or>
             OUTSIDE_UINT_RANGE (N0 params) 15 \<or> OUTSIDE_UINT_RANGE (K0 params) 15
          then iree_ukernel_mmt4d_status_unsupported_huge_or_negative_dimension
          else iree_ukernel_mmt4d_status_ok))"

section \<open>Status messages\<close>

fun iree_ukernel_mmt4d_status_message :: "iree_ukernel_mmt4d_status_t \<Rightarrow> string" where
  "iree_ukernel_mmt4d_status_message iree_ukernel_mmt4d_status_bad_flags = ''bad mmt4d flags''"
| "iree_ukernel_mmt4d_status_message iree_ukernel_mmt4d_status_bad_type = ''bad mmt4d type enum''"
| "iree_ukernel_mmt4d_status_message
     iree_ukernel_mmt4d_status_unsupported_huge_or_negative_dimension =
     ''unsupported huge or negative size in mmt4d''"
| "iree_ukernel_mmt4d_status_message iree_ukernel_mmt4d_status_unsupported_generic_tile_size =
     ''tile size too large for the generic tile implementation''"
| "iree_ukernel_mmt4d_status_message _ = ''unknown''"

section \<open>The loop nest applying a tile function\<close>

text \<open>
  Modelled from the spec: the helpers \<^verbatim>\<open>iree_ukernel_mmt4d_lhs_elem_size_log2\<close>,
  \<^verbatim>\<open>iree_ukernel_mmt4d_rhs_elem_size_log2\<close> and \<^verbatim>\<open>iree_ukernel_mmt4d_out_elem_size_log2\<close>
  (declared in mmt4d.h): the element byte size of each buffer as a power-of-two shift.
  An f32 or i32 element takes 4 bytes (shift 2), an i8 element 1 byte (shift 0). The value
  at an unsupported type is never used by a validated call.
\<close>

fun iree_ukernel_mmt4d_lhs_elem_size_log2 :: "iree_ukernel_mmt4d_type_t \<Rightarrow> nat" where
  "iree_ukernel_mmt4d_lhs_elem_size_log2 iree_ukernel_mmt4d_type_f32f32f32 = 2"
| "iree_ukernel_mmt4d_lhs_elem_size_log2 iree_ukernel_mmt4d_type_i8i8i32 = 0"
| "iree_ukernel_mmt4d_lhs_elem_size_log2 (iree_ukernel_mmt4d_type_other v) = 0"

fun iree_ukernel_mmt4d_rhs_elem_size_log2 :: "iree_ukernel_mmt4d_type_t \<Rightarrow> nat" where
  "iree_ukernel_mmt4d_rhs_elem_size_log2 iree_ukernel_mmt4d_type_f32f32f32 = 2"
| "iree_ukernel_mmt4d_rhs_elem_size_log2 iree_ukernel_mmt4d_type_i8i8i32 = 0"
| "iree_ukernel_mmt4d_rhs_elem_size_log2 (iree_ukernel_mmt4d_type_other v) = 0"

fun iree_ukernel_mmt4d_out_elem_size_log2 :: "iree_ukernel_mmt4d_type_t \<Rightarrow> nat" where
  "iree_ukernel_mmt4d_out_elem_size_log2 iree_ukernel_mmt4d_type_f32f32f32 = 2"
| "iree_ukernel_mmt4d_out_elem_size_log2 iree_ukernel_mmt4d_type_i8i8i32 = 2"
| "iree_ukernel_mmt4d_out_elem_size_log2 (iree_ukernel_mmt4d_type_other v) = 0"

text \<open>
  The arguments of one call \<^verbatim>\<open>tile_func(out_tile, lhs_panel, rhs_panel, K, flags, params)\<close>:
  three byte addresses, the reduction length as the \<^verbatim>\<open>int32_t\<close> the driver holds, the
  flags and the descriptor.
\<close>

type_synonym tile_args =
  "64 word \<times> 64 word \<times> 64 word \<times> 32 word \<times> 32 word \<times> iree_ukernel_mmt4d_params_t"

text \<open>
  A tile function is an external routine acting on the memory \<open>'m\<close> that holds the
  buffers. The state of an execution is that memory together with the list of the calls
  made so far, oldest first; the list is only an observation of the run.
\<close>

type_synonym 'm iree_ukernel_mmt4d_tile_func_t = "tile_args \<Rightarrow> 'm \<Rightarrow> 'm"

record 'm exec_state =
  memory :: 'm
  calls :: "tile_args list"

definition call_tile_func ::
  "'m iree_ukernel_mmt4d_tile_func_t \<Rightarrow> tile_args \<Rightarrow> 'm exec_state \<Rightarrow> 'm exec_state" where
  "call_tile_func tile_func args s =
     s\<lparr>memory := tile_func args (memory s), calls := calls s @ [args]\<rparr>"

lemma sint_succ_less: "(j :: 32 word) <s n \<Longrightarrow> sint (j + 1) = sint j + 1"
proof -
  assume "j <s n"
  then have "sint j < sint n" by (simp add: word_sless_alt)
  moreover have "sint n < 2 ^ 31" using sint_lt [of n] by simp
  moreover have "- (2 ^ 31) \<le> sint j" using sint_ge [of j] by simp
  ultimately show ?thesis
    by (simp add: sint_word_add signed_take_bit_int_eq_self)
qed

text \<open>
  \<^verbatim>\<open>for (int32_t j = 0; j < N; ++j) { tile_func(...); out_tile += out_tile_size;
  rhs_panel += rhs_panel_stride; }\<close>, entered with the current values of \<open>j\<close>,
  \<open>out_tile\<close> and \<open>rhs_panel\<close>. Adding the \<^verbatim>\<open>int32_t\<close> \<open>out_tile_size\<close> to a
  pointer sign-extends it.
\<close>

function mmt4d_inner_loop ::
  "'m iree_ukernel_mmt4d_tile_func_t \<Rightarrow> iree_ukernel_mmt4d_params_t \<Rightarrow> 64 word \<Rightarrow>
   32 word \<Rightarrow> 32 word \<Rightarrow> 64 word \<Rightarrow> 32 word \<Rightarrow>
   32 word \<Rightarrow> 64 word \<Rightarrow> 64 word \<Rightarrow> 'm exec_state \<Rightarrow> 'm exec_state" where
  "mmt4d_inner_loop tile_func params lhs_panel K32 out_tile_size rhs_panel_stride N32
     j out_tile rhs_panel s =
   (if j <s N32
    then mmt4d_inner_loop tile_func params lhs_panel K32 out_tile_size rhs_panel_stride N32
           (j + 1) (out_tile + scast out_tile_size) (rhs_panel + rhs_panel_stride)
           (call_tile_func tile_func
              (out_tile, lhs_panel, rhs_panel, K32, flags params, params) s)
    else s)"
  by pat_completeness auto
termination
  by (relation "measure (\<lambda>(tile_func, params, lhs_panel, K32, out_tile_size, rhs_panel_stride,
        N32, j, out_tile, rhs_panel, s). nat (sint N32 - sint j))")
     (auto simp: sint_succ_less word_sless_alt)

declare mmt4d_inner_loop.simps [simp del]

text \<open>
  \<^verbatim>\<open>for (int32_t i = 0; i < M; ++i) { out_tile = out_tile_row; rhs_panel = rhs_buffer;
  <inner loop>; out_tile_row += out_stride; lhs_panel += lhs_panel_stride; }\<close>
\<close>

function mmt4d_outer_loop ::
  "'m iree_ukernel_mmt4d_tile_func_t \<Rightarrow> iree_ukernel_mmt4d_params_t \<Rightarrow>
   32 word \<Rightarrow> 32 word \<Rightarrow> 64 word \<Rightarrow> 64 word \<Rightarrow> 64 word \<Rightarrow> 32 word \<Rightarrow> 32 word \<Rightarrow>
   32 word \<Rightarrow> 64 word \<Rightarrow> 64 word \<Rightarrow> 'm exec_state \<Rightarrow> 'm exec_state" where
  "mmt4d_outer_loop tile_func params K32 out_tile_size lhs_panel_stride rhs_panel_stride
     out_stride_bytes N32 M32 i out_tile_row lhs_panel s =
   (if i <s M32
    then mmt4d_outer_loop tile_func params K32 out_tile_size lhs_panel_stride rhs_panel_stride
           out_stride_bytes N32 M32
           (i + 1) (out_tile_row + out_stride_bytes) (lhs_panel + lhs_panel_stride)
           (mmt4d_inner_loop tile_func params lhs_panel K32 out_tile_size rhs_panel_stride N32
              0 out_tile_row (rhs_buffer params) s)
    else s)"
  by pat_completeness auto
termination
  by (relation "measure (\<lambda>(tile_func, params, K32, out_tile_size, lhs_panel_stride,
        rhs_panel_stride, out_stride_bytes, N32, M32, i, out_tile_row, lhs_panel, s).
        nat (sint M32 - sint i))")
     (auto simp: sint_succ_less word_sless_alt)

declare mmt4d_outer_loop.simps [simp del]

text \<open>
  \<^verbatim>\<open>int32_t out_tile_size = (M0 * N0) << out_elem_size_log2;\<close> where \<open>M0\<close> and \<open>N0\<close>
  are the \<^verbatim>\<open>int16_t\<close> copies of the fields. The operands are promoted to \<^verbatim>\<open>int\<close>;
  \<open>out_tile_size_exact\<close> is the mathematical value of the expression, \<open>out_tile_size\<close>
  what a 32-bit two's complement \<^verbatim>\<open>int\<close> keeps of it. C leaves a shift that overflows
  undefined; the model keeps the low 32 bits of the result, as the usual compilers do.
\<close>

definition out_tile_size_exact :: "iree_ukernel_mmt4d_params_t \<Rightarrow> int" where
  "out_tile_size_exact params =
     (sint (ucast (M0 params) :: 16 word) * sint (ucast (N0 params) :: 16 word)) *
     2 ^ iree_ukernel_mmt4d_out_elem_size_log2 (type params)"

definition out_tile_size :: "iree_ukernel_mmt4d_params_t \<Rightarrow> 32 word" where
  "out_tile_size params =
     push_bit (iree_ukernel_mmt4d_out_elem_size_log2 (type params))
       (scast (ucast (M0 params) :: 16 word) * scast (ucast (N0 params) :: 16 word))"

definition iree_ukernel_mmt4d_using_tile_func ::
  "iree_ukernel_mmt4d_params_t \<Rightarrow> 'm iree_ukernel_mmt4d_tile_func_t \<Rightarrow>
   'm exec_state \<Rightarrow> 'm exec_state" where
  "iree_ukernel_mmt4d_using_tile_func params tile_func s =
     (let M32 = ucast (M params) :: 32 word;
          N32 = ucast (N params) :: 32 word;
          K32 = ucast (K params) :: 32 word;
          lhs_elem_size_log2 = iree_ukernel_mmt4d_lhs_elem_size_log2 (type params);
          rhs_elem_size_log2 = iree_ukernel_mmt4d_rhs_elem_size_log2 (type params);
          out_elem_size_log2 = iree_ukernel_mmt4d_out_elem_size_log2 (type params);
          out_tile_row = out_buffer params;
          lhs_panel = lhs_buffer params;
          lhs_panel_stride = push_bit lhs_elem_size_log2 (lhs_stride params);
          rhs_panel_stride = push_bit rhs_elem_size_log2 (rhs_stride params);
          out_stride_bytes = push_bit out_elem_size_log2 (out_stride params)
      in mmt4d_outer_loop tile_func params K32 (out_tile_size params) lhs_panel_stride
           rhs_panel_stride out_stride_bytes N32 M32 0 out_tile_row lhs_panel s)"

section \<open>Selecting the tile function\<close>

text \<open>
  The architecture-specific provider \<^verbatim>\<open>iree_ukernel_mmt4d_select_tile_func_arch\<close> is an
  external collaborator: a parameter \<open>arch\<close> that maps a descriptor to a tile function or
  to nothing (the null pointer).
\<close>

text \<open>
  Modelled from the spec: \<^verbatim>\<open>iree_ukernel_mmt4d_select_tile_func_generic\<close> (its source,
  mmt4d_select_tile_generic.c, is missing). The generic provider \<open>generic\<close> yields a tile
  function for a tile shape within its working-buffer budget and refuses otherwise; a
  refusal is reported as \<open>unsupported_generic_tile_size\<close>. A result \<open>Inr f\<close> stands for
  the status ok with \<open>f\<close> stored in \<^verbatim>\<open>*out_tile_func\<close>, \<open>Inl st\<close> for the failure \<open>st\<close>.
\<close>

definition iree_ukernel_mmt4d_select_tile_func_generic ::
  "(iree_ukernel_mmt4d_params_t \<Rightarrow> 'm iree_ukernel_mmt4d_tile_func_t option) \<Rightarrow>
   iree_ukernel_mmt4d_params_t \<Rightarrow>
   iree_ukernel_mmt4d_status_t + 'm iree_ukernel_mmt4d_tile_func_t" where
  "iree_ukernel_mmt4d_select_tile_func_generic generic params =
     (case generic params of
        None \<Rightarrow> Inl iree_ukernel_mmt4d_status_unsupported_generic_tile_size
      | Some tile_func \<Rightarrow> Inr tile_func)"

definition iree_ukernel_mmt4d_select_tile_func ::
  "(iree_ukernel_mmt4d_params_t \<Rightarrow> 'm iree_ukernel_mmt4d_tile_func_t option) \<Rightarrow>
   (iree_ukernel_mmt4d_params_t \<Rightarrow> 'm iree_ukernel_mmt4d_tile_func_t option) \<Rightarrow>
   iree_ukernel_mmt4d_params_t \<Rightarrow>
   iree_ukernel_mmt4d_status_t + 'm iree_ukernel_mmt4d_tile_func_t" where
  "iree_ukernel_mmt4d_select_tile_func arch generic params =
     (case arch params of
        Some arch_tile_func \<Rightarrow> Inr arch_tile_func
      | None \<Rightarrow> iree_ukernel_mmt4d_select_tile_func_generic generic params)"

section \<open>The entry point\<close>

text \<open>
  Modelled from the spec: the macro \<^verbatim>\<open>IREE_UKERNEL_MMT4D_RETURN_IF_ERROR\<close> (declared in
  mmt4d.h) returns its argument from the enclosing function when it is not the status ok.
  The entry point returns the status and the state it leaves behind.
\<close>

definition iree_ukernel_mmt4d ::
  "(iree_ukernel_mmt4d_params_t \<Rightarrow> 'm iree_ukernel_mmt4d_tile_func_t option) \<Rightarrow>
   (iree_ukernel_mmt4d_params_t \<Rightarrow> 'm iree_ukernel_mmt4d_tile_func_t option) \<Rightarrow>
   iree_ukernel_mmt4d_params_t \<Rightarrow> 'm exec_state \<Rightarrow>
   iree_ukernel_mmt4d_status_t \<times> 'm exec_state" where
  "iree_ukernel_mmt4d arch generic params s =
     (let status = iree_ukernel_mmt4d_validate params
      in if status \<noteq> iree_ukernel_mmt4d_status_ok then (status, s)
         else case iree_ukernel_mmt4d_select_tile_func arch generic params of
             Inl status' \<Rightarrow> (status', s)
           | Inr tile_func \<Rightarrow>
               (iree_ukernel_mmt4d_status_ok,
                iree_ukernel_mmt4d_using_tile_func params tile_func s))"

section \<open>Predicates and concrete descriptors used in the statements\<close>

text \<open>The negation of the first test of the validation routine: no undefined flag bit.\<close>

definition flags_valid :: "iree_ukernel_mmt4d_params_t \<Rightarrow> bool" where
  "flags_valid params \<longleftrightarrow> flags params AND NOT IREE_VMVX_MATMUL_FLAG_ACCUMULATE = 0"

text \<open>The types that the \<^verbatim>\<open>switch\<close> of the validation routine lets through.\<close>

fun type_supported :: "iree_ukernel_mmt4d_type_t \<Rightarrow> bool" where
  "type_supported iree_ukernel_mmt4d_type_f32f32f32 = True"
| "type_supported iree_ukernel_mmt4d_type_i8i8i32 = True"
| "type_supported (iree_ukernel_mmt4d_type_other v) = False"

text \<open>A signed value lies in \<open>[0, 2^bits)\<close>.\<close>

definition in_uint_range :: "'a::len word \<Rightarrow> nat \<Rightarrow> bool" where
  "in_uint_range v bits \<longleftrightarrow> 0 \<le> sint v \<and> sint v < 2 ^ bits"

text \<open>A one-tile f32 descriptor with every field in range; the examples below vary it.\<close>

definition params_unit :: iree_ukernel_mmt4d_params_t where
  "params_unit =
     \<lparr>type = iree_ukernel_mmt4d_type_f32f32f32, flags = 0,
      lhs_buffer = 0, rhs_buffer = 0, out_buffer = 0,
      lhs_stride = 1, rhs_stride = 1, out_stride = 1,
      M = 1, N = 1, K = 1, M0 = 1, N0 = 1, K0 = 1\<rparr>"

text \<open>
  The calls of the loop nest written as a list, row by row, with the values the driver
  computes before the loops: the truncated extents, the byte strides and the 32-bit tile
  footprint (lemma \<open>using_tile_func_eq\<close> below).
\<close>

definition driver_calls :: "iree_ukernel_mmt4d_params_t \<Rightarrow> tile_args list" where
  "driver_calls p =
     concat (map (\<lambda>a. map (\<lambda>b.
         (out_buffer p
            + of_nat a * push_bit (iree_ukernel_mmt4d_out_elem_size_log2 (type p)) (out_stride p)
            + of_nat b * scast (out_tile_size p),
          lhs_buffer p
            + of_nat a * push_bit (iree_ukernel_mmt4d_lhs_elem_size_log2 (type p)) (lhs_stride p),
          rhs_buffer p
            + of_nat b * push_bit (iree_ukernel_mmt4d_rhs_elem_size_log2 (type p)) (rhs_stride p),
          ucast (K p), flags p, p))
        [0..<nat (sint (ucast (N p) :: 32 word))])
       [0..<nat (sint (ucast (M p) :: 32 word))])"

section \<open>The closed form of the tile grid\<close>

text \<open>
  The arguments of the call for the tile \<open>(i, j)\<close> as the specification words them:
  the output tile at \<open>out_buffer + i * (out_stride * out_elem_size) +
  j * (M0 * N0 * out_elem_size)\<close>, the left panel at
  \<open>lhs_buffer + i * (lhs_stride * lhs_elem_size)\<close>, the right panel at
  \<open>rhs_buffer + j * (rhs_stride * rhs_elem_size)\<close>, computed at the width of an address,
  then the reduction length, the flags and the descriptor. The grid lists the tiles
  \<open>(i, j)\<close> for \<open>i\<close> in \<open>[0, M)\<close> and \<open>j\<close> in \<open>[0, N)\<close> in row-major order.
\<close>

definition tile_args_closed_form ::
  "iree_ukernel_mmt4d_params_t \<Rightarrow> nat \<Rightarrow> nat \<Rightarrow> tile_args" where
  "tile_args_closed_form p i j =
     (out_buffer p
        + of_nat i * (out_stride p * 2 ^ iree_ukernel_mmt4d_out_elem_size_log2 (type p))
        + of_nat j * (ucast (M0 p) * ucast (N0 p)
                        * 2 ^ iree_ukernel_mmt4d_out_elem_size_log2 (type p)),
      lhs_buffer p
        + of_nat i * (lhs_stride p * 2 ^ iree_ukernel_mmt4d_lhs_elem_size_log2 (type p)),
      rhs_buffer p
        + of_nat j * (rhs_stride p * 2 ^ iree_ukernel_mmt4d_rhs_elem_size_log2 (type p)),
      ucast (K p), flags p, p)"

definition tile_grid_closed_form :: "iree_ukernel_mmt4d_params_t \<Rightarrow> tile_args list" where
  "tile_grid_closed_form p =
     concat (map (\<lambda>i. map (\<lambda>j. tile_args_closed_form p i j) [0..<unat (N p)])
               [0..<unat (M p)])"

text \<open>
  Concrete descriptors: a 2 by 2 grid of 2 by 2 f32 tiles, and a row of two tiles of the
  largest validated shape, 32767 by 32767. The memory of the examples is a counter; a tile
  function that leaves it alone, and the state before any call.
\<close>

definition params_grid_2x2 :: iree_ukernel_mmt4d_params_t where
  "params_grid_2x2 =
     params_unit\<lparr>M := 2, N := 2, M0 := 2, N0 := 2, out_buffer := 4096, lhs_buffer := 256,
       rhs_buffer := 512, out_stride := 8, lhs_stride := 3, rhs_stride := 5\<rparr>"

definition tile_func_skip :: "nat iree_ukernel_mmt4d_tile_func_t" where
  "tile_func_skip args m = m"

definition exec_state_init :: "nat exec_state" where
  "exec_state_init = \<lparr>memory = 0, calls = []\<rparr>"

text \<open>
  Example providers: a tile function that counts its calls, a provider with no tile
  function at all, and a provider that supplies a given tile function when the tile
  footprint is within a byte budget and refuses otherwise.
\<close>

definition tile_func_count :: "nat iree_ukernel_mmt4d_tile_func_t" where
  "tile_func_count args m = Suc m"

definition provider_none ::
  "iree_ukernel_mmt4d_params_t \<Rightarrow> nat iree_ukernel_mmt4d_tile_func_t option" where
  "provider_none params = None"

definition provider_budget ::
  "int \<Rightarrow> nat iree_ukernel_mmt4d_tile_func_t \<Rightarrow> iree_ukernel_mmt4d_params_t \<Rightarrow>
   nat iree_ukernel_mmt4d_tile_func_t option" where
  "provider_budget budget tile_func params =
     (if out_tile_size_exact params \<le> budget then Some tile_func else None)"

definition params_wide_tile :: iree_ukernel_mmt4d_params_t where
  "params_wide_tile = params_unit\<lparr>N := 2, M0 := 32767, N0 := 32767\<rparr>"

section \<open>Properties of the validation routine\<close>

lemma OUTSIDE_UINT_RANGE_iff:
  "OUTSIDE_UINT_RANGE (v :: 'a::len word) bits \<longleftrightarrow> \<not> in_uint_range v bits"
proof -
  have "signed_drop_bit bits v = 0 \<longleftrightarrow> sint (signed_drop_bit bits v) = 0"
    by (metis sint_0 signed_eq_0_iff)
  also have "\<dots> \<longleftrightarrow> sint v div 2 ^ bits = 0"
    by (simp add: sint_signed_drop_bit_eq drop_bit_eq_div)
  finally have shift: "signed_drop_bit bits v = 0 \<longleftrightarrow> sint v div 2 ^ bits = 0" .
  show ?thesis
    unfolding OUTSIDE_UINT_RANGE_def in_uint_range_def word_sless_alt shift
    by (auto simp: div_eq_0_iff zdiv_eq_0_iff)
qed

lemma validate_bad_flags:
  "\<not> flags_valid p \<Longrightarrow> iree_ukernel_mmt4d_validate p = iree_ukernel_mmt4d_status_bad_flags"
  by (simp add: iree_ukernel_mmt4d_validate_def flags_valid_def)

lemma validate_bad_type:
  "flags_valid p \<Longrightarrow> \<not> type_supported (type p) \<Longrightarrow>
   iree_ukernel_mmt4d_validate p = iree_ukernel_mmt4d_status_bad_type"
  by (cases "type p") (simp_all add: iree_ukernel_mmt4d_validate_def flags_valid_def)

lemma validate_dims:
  "flags_valid p \<Longrightarrow> type_supported (type p) \<Longrightarrow>
   iree_ukernel_mmt4d_validate p =
     (if in_uint_range (M p) 31 \<and> in_uint_range (K p) 31 \<and> in_uint_range (M0 p) 15 \<and>
         in_uint_range (N0 p) 15 \<and> in_uint_range (K0 p) 15
      then iree_ukernel_mmt4d_status_ok
      else iree_ukernel_mmt4d_status_unsupported_huge_or_negative_dimension)"
  by (cases "type p")
     (auto simp add: iree_ukernel_mmt4d_validate_def flags_valid_def OUTSIDE_UINT_RANGE_iff)

lemma validate_ok_iff:
  "iree_ukernel_mmt4d_validate p = iree_ukernel_mmt4d_status_ok \<longleftrightarrow>
     flags_valid p \<and> type_supported (type p) \<and>
     in_uint_range (M p) 31 \<and> in_uint_range (K p) 31 \<and> in_uint_range (M0 p) 15 \<and>
     in_uint_range (N0 p) 15 \<and> in_uint_range (K0 p) 15"
proof (cases "flags_valid p")
  case False
  then show ?thesis by (simp add: validate_bad_flags)
next
  case True
  then show ?thesis
    by (cases "type_supported (type p)") (simp_all add: validate_bad_type validate_dims)
qed

lemma params_unit_valid: "flags_valid params_unit" "type_supported (type params_unit)"
  by (simp_all add: params_unit_def flags_valid_def)

text \<open>
  C1. The claim: with valid flags and a supported type, the validation routine returns
  the dimension error exactly when one of \<open>M, N, K\<close> is outside \<open>[0, 2^31)\<close> or one of
  \<open>M0, N0, K0\<close> is outside \<open>[0, 2^15)\<close>; in particular a negative \<open>N\<close> is rejected.
  The routine tests \<open>M\<close> twice and never looks at \<open>N\<close>: the descriptor with \<open>N = -1\<close> and
  every other field in range (valid flags, supported type) is accepted with the status ok.
\<close>

theorem validate_accepts_negative_N:
  "flags_valid (params_unit\<lparr>N := - 1\<rparr>) \<and>
   type_supported (type (params_unit\<lparr>N := - 1\<rparr>)) \<and>
   sint (N (params_unit\<lparr>N := - 1\<rparr>)) = - 1 \<and>
   \<not> in_uint_range (N (params_unit\<lparr>N := - 1\<rparr>)) 31 \<and>
   iree_ukernel_mmt4d_validate (params_unit\<lparr>N := - 1\<rparr>) = iree_ukernel_mmt4d_status_ok"
  by (simp add: validate_ok_iff) (simp add: params_unit_def flags_valid_def in_uint_range_def)

text \<open>
  C7. The message function is total on status values. It returns the four documented
  strings for the four failure statuses, a non-empty string for every status (the five
  defined ones included), and the literal "unknown" for every integer value that is none
  of the five enumerators.
\<close>

theorem status_message_total:
  "iree_ukernel_mmt4d_status_message iree_ukernel_mmt4d_status_bad_flags = ''bad mmt4d flags'' \<and>
   iree_ukernel_mmt4d_status_message iree_ukernel_mmt4d_status_bad_type = ''bad mmt4d type enum'' \<and>
   iree_ukernel_mmt4d_status_message
     iree_ukernel_mmt4d_status_unsupported_huge_or_negative_dimension =
     ''unsupported huge or negative size in mmt4d'' \<and>
   iree_ukernel_mmt4d_status_message iree_ukernel_mmt4d_status_unsupported_generic_tile_size =
     ''tile size too large for the generic tile implementation'' \<and>
   iree_ukernel_mmt4d_status_message iree_ukernel_mmt4d_status_ok \<noteq> [] \<and>
   iree_ukernel_mmt4d_status_message status \<noteq> [] \<and>
   iree_ukernel_mmt4d_status_message (iree_ukernel_mmt4d_status_other v) = ''unknown''"
  by (cases status) simp_all

text \<open>
  C9. Validation failures have a fixed precedence. An undefined flag bit gives bad_flags
  whatever the type and the dimensions are; with valid flags an unsupported type gives
  bad_type whatever the dimensions are; the dimension error is returned only when the flags
  and the type are both valid.
\<close>

theorem validate_precedence:
  "(\<not> flags_valid p \<longrightarrow>
      iree_ukernel_mmt4d_validate p = iree_ukernel_mmt4d_status_bad_flags) \<and>
   (flags_valid p \<and> \<not> type_supported (type p) \<longrightarrow>
      iree_ukernel_mmt4d_validate p = iree_ukernel_mmt4d_status_bad_type) \<and>
   (iree_ukernel_mmt4d_validate p =
      iree_ukernel_mmt4d_status_unsupported_huge_or_negative_dimension \<longrightarrow>
      flags_valid p \<and> type_supported (type p))"
proof (intro conjI impI)
  assume "\<not> flags_valid p"
  then show "iree_ukernel_mmt4d_validate p = iree_ukernel_mmt4d_status_bad_flags"
    by (rule validate_bad_flags)
next
  assume "flags_valid p \<and> \<not> type_supported (type p)"
  then show "iree_ukernel_mmt4d_validate p = iree_ukernel_mmt4d_status_bad_type"
    by (simp add: validate_bad_type)
next
  assume dim: "iree_ukernel_mmt4d_validate p =
    iree_ukernel_mmt4d_status_unsupported_huge_or_negative_dimension"
  show "flags_valid p"
  proof (rule ccontr)
    assume "\<not> flags_valid p"
    then show False using dim by (simp add: validate_bad_flags)
  qed
  then show "type_supported (type p)"
    using dim by (cases "type_supported (type p)") (simp_all add: validate_bad_type)
qed

text \<open>
  Three descriptors with several violations at once: undefined flag bit, unsupported type
  and negative \<open>M\<close>; valid flags, unsupported type and negative \<open>M\<close>; only a negative \<open>M\<close>.
\<close>

theorem validate_precedence_witness:
  "\<not> flags_valid (params_unit\<lparr>flags := 2, type := iree_ukernel_mmt4d_type_other 7, M := - 1\<rparr>) \<and>
   iree_ukernel_mmt4d_validate
     (params_unit\<lparr>flags := 2, type := iree_ukernel_mmt4d_type_other 7, M := - 1\<rparr>) =
     iree_ukernel_mmt4d_status_bad_flags \<and>
   flags_valid (params_unit\<lparr>flags := 1, type := iree_ukernel_mmt4d_type_other 7, M := - 1\<rparr>) \<and>
   iree_ukernel_mmt4d_validate
     (params_unit\<lparr>flags := 1, type := iree_ukernel_mmt4d_type_other 7, M := - 1\<rparr>) =
     iree_ukernel_mmt4d_status_bad_type \<and>
   iree_ukernel_mmt4d_validate (params_unit\<lparr>M := - 1\<rparr>) =
     iree_ukernel_mmt4d_status_unsupported_huge_or_negative_dimension \<and>
   flags_valid (params_unit\<lparr>M := - 1\<rparr>) \<and> type_supported (type (params_unit\<lparr>M := - 1\<rparr>))"
proof -
  let ?a = "params_unit\<lparr>flags := 2, type := iree_ukernel_mmt4d_type_other 7, M := - 1\<rparr>"
  let ?b = "params_unit\<lparr>flags := 1, type := iree_ukernel_mmt4d_type_other 7, M := - 1\<rparr>"
  let ?c = "params_unit\<lparr>M := - 1\<rparr>"
  have a: "\<not> flags_valid ?a"
    by (simp add: flags_valid_def IREE_VMVX_MATMUL_FLAG_ACCUMULATE_def)
  have b: "flags_valid ?b \<and> \<not> type_supported (type ?b)"
    by (simp add: flags_valid_def IREE_VMVX_MATMUL_FLAG_ACCUMULATE_def)
  have c: "iree_ukernel_mmt4d_validate ?c =
      iree_ukernel_mmt4d_status_unsupported_huge_or_negative_dimension"
    by (simp add: validate_dims flags_valid_def params_unit_def in_uint_range_def)
  have ra: "iree_ukernel_mmt4d_validate ?a = iree_ukernel_mmt4d_status_bad_flags"
    using validate_precedence [of ?a] a by blast
  have rb: "iree_ukernel_mmt4d_validate ?b = iree_ukernel_mmt4d_status_bad_type"
    using validate_precedence [of ?b] b by blast
  have rc: "flags_valid ?c \<and> type_supported (type ?c)"
    using validate_precedence [of ?c] c by blast
  show ?thesis
    using a b c ra rb rc by blast
qed


text \<open>
  C10. The result of the validation routine depends only on the flags, the type and the
  dimensions \<open>M, N, K, M0, N0, K0\<close>: two descriptors that agree on these fields get the same
  status, however their strides and buffer addresses differ. In particular no stride value,
  negative or huge, is ever rejected.
\<close>

theorem validate_ignores_strides_and_buffers:
  "flags p = flags q \<Longrightarrow> type p = type q \<Longrightarrow> M p = M q \<Longrightarrow> N p = N q \<Longrightarrow> K p = K q \<Longrightarrow>
   M0 p = M0 q \<Longrightarrow> N0 p = N0 q \<Longrightarrow> K0 p = K0 q \<Longrightarrow>
   iree_ukernel_mmt4d_validate p = iree_ukernel_mmt4d_validate q"
  unfolding iree_ukernel_mmt4d_validate_def by presburger

text \<open>
  A descriptor with a negative left stride, the largest right stride, the smallest output
  stride and other buffer addresses passes the validation as the unit descriptor does.
\<close>

theorem validate_ignores_strides_and_buffers_witness:
  "iree_ukernel_mmt4d_validate
     (params_unit\<lparr>lhs_stride := - 1, rhs_stride := 0x7FFFFFFFFFFFFFFF,
        out_stride := 0x8000000000000000, lhs_buffer := 4096, rhs_buffer := 8192,
        out_buffer := 12288\<rparr>) =
   iree_ukernel_mmt4d_status_ok"
proof -
  let ?p = "params_unit\<lparr>lhs_stride := - 1, rhs_stride := 0x7FFFFFFFFFFFFFFF,
        out_stride := 0x8000000000000000, lhs_buffer := 4096, rhs_buffer := 8192,
        out_buffer := 12288\<rparr>"
  have ok: "iree_ukernel_mmt4d_validate params_unit = iree_ukernel_mmt4d_status_ok"
    by (simp add: validate_ok_iff params_unit_valid) (simp add: params_unit_def in_uint_range_def)
  have "iree_ukernel_mmt4d_validate ?p = iree_ukernel_mmt4d_validate params_unit"
    by (rule validate_ignores_strides_and_buffers) simp_all
  then show ?thesis using ok by simp
qed

section \<open>Narrowing conversions and the tile footprint\<close>

lemma uint_eq_sint_nonneg:
  fixes w :: "'a::len word"
  assumes "0 \<le> sint w"
  shows "uint w = sint w"
proof -
  have "sint w < 2 ^ (LENGTH('a) - 1)" by (rule sint_lt)
  also have "(2::int) ^ (LENGTH('a) - 1) \<le> 2 ^ LENGTH('a)" by (simp add: power_increasing)
  finally have "sint w < 2 ^ LENGTH('a)" .
  with assms show ?thesis by (simp add: uint_sint take_bit_int_eq_self)
qed

lemma sint_word_of_int_small:
  assumes "0 \<le> k" "k < 2 ^ bits" "bits < LENGTH('b::len)"
  shows "sint (word_of_int k :: 'b word) = k"
proof -
  have le: "(2::int) ^ bits \<le> 2 ^ (LENGTH('b) - 1)"
    using assms(3) by (intro power_increasing) simp_all
  have upper: "k < 2 ^ (LENGTH('b) - 1)"
    using assms(2) le by (rule order_less_le_trans)
  have "- (2 ^ (LENGTH('b) - 1)) \<le> (0::int)" by simp
  then have lower: "- (2 ^ (LENGTH('b) - 1)) \<le> k"
    using assms(1) by (rule order_trans)
  from lower upper have "signed_take_bit (LENGTH('b) - 1) k = k"
    by (rule signed_take_bit_int_eq_self)
  then show ?thesis
    by (simp only: sint_sbintrunc')
qed

lemma ucast_eq_scast_nonneg:
  fixes w :: "'a::len word"
  assumes "0 \<le> sint w"
  shows "(ucast w :: 'b::len word) = scast w"
  using uint_eq_sint_nonneg [OF assms] by (metis of_int_uint of_int_sint)

lemma narrow_sint:
  fixes w :: "'a::len word"
  assumes "in_uint_range w bits" "bits < LENGTH('b::len)"
  shows "sint (ucast w :: 'b word) = sint w"
proof -
  from assms(1) have range: "0 \<le> sint w" "sint w < 2 ^ bits"
    by (simp_all add: in_uint_range_def)
  have "sint (ucast w :: 'b word) = sint (word_of_int (sint w) :: 'b word)"
    by (simp only: ucast_eq_scast_nonneg [OF range(1)] scast_eq)
  also have "\<dots> = sint w"
    by (rule sint_word_of_int_small [OF range assms(2)])
  finally show ?thesis .
qed

lemma narrow_count:
  fixes w :: "'a::len word"
  assumes "in_uint_range w bits" "bits < LENGTH('b::len)"
  shows "nat (sint (ucast w :: 'b word)) = unat w"
proof -
  from assms(1) have "0 \<le> sint w" by (simp add: in_uint_range_def)
  then have "uint w = sint w" by (rule uint_eq_sint_nonneg)
  then show ?thesis using narrow_sint [OF assms] by (simp add: unat_eq_nat_uint)
qed

lemma out_tile_size_eq_exact:
  assumes "in_uint_range (M0 p) 15" "in_uint_range (N0 p) 15"
  shows "out_tile_size p = word_of_int (out_tile_size_exact p)"
    and "out_tile_size_exact p =
           sint (M0 p) * sint (N0 p) * 2 ^ iree_ukernel_mmt4d_out_elem_size_log2 (type p)"
    and "0 \<le> out_tile_size_exact p"
proof -
  have m: "sint (ucast (M0 p) :: 16 word) = sint (M0 p)"
    using assms(1) by (rule narrow_sint) simp
  have n: "sint (ucast (N0 p) :: 16 word) = sint (N0 p)"
    using assms(2) by (rule narrow_sint) simp
  show "out_tile_size p = word_of_int (out_tile_size_exact p)"
    by (simp add: out_tile_size_def out_tile_size_exact_def push_bit_eq_mult)
  show "out_tile_size_exact p =
           sint (M0 p) * sint (N0 p) * 2 ^ iree_ukernel_mmt4d_out_elem_size_log2 (type p)"
    by (simp add: out_tile_size_exact_def m n)
  then show "0 \<le> out_tile_size_exact p"
    using assms by (simp add: in_uint_range_def)
qed

lemma scast_out_tile_size:
  assumes "in_uint_range (M0 p) 15" "in_uint_range (N0 p) 15" "out_tile_size_exact p < 2 ^ 31"
  shows "(scast (out_tile_size p) :: 64 word) =
         ucast (M0 p) * ucast (N0 p) * 2 ^ iree_ukernel_mmt4d_out_elem_size_log2 (type p)"
proof -
  note facts = out_tile_size_eq_exact [OF assms(1,2)]
  have size: "sint (out_tile_size p) = out_tile_size_exact p"
    unfolding facts(1) using facts(3) assms(3) by (rule sint_word_of_int_small) simp
  have widen: "(ucast (M0 p) :: 64 word) = scast (M0 p)"
    "(ucast (N0 p) :: 64 word) = scast (N0 p)"
    using assms(1,2) by (simp_all add: ucast_eq_scast_nonneg in_uint_range_def)
  have "(scast (out_tile_size p) :: 64 word) = word_of_int (sint (out_tile_size p))"
    by (rule scast_eq)
  also have "\<dots> = word_of_int (out_tile_size_exact p)"
    by (simp only: size)
  also have "\<dots> = scast (M0 p) * scast (N0 p) *
      2 ^ iree_ukernel_mmt4d_out_elem_size_log2 (type p)"
    by (simp add: facts(2))
  finally show ?thesis
    by (simp only: widen)
qed

section \<open>Properties of the loop nest\<close>

lemma calls_fold_call_tile_func:
  "calls (fold (call_tile_func tf) as s) = calls s @ as"
  by (induction as arbitrary: s) (simp_all add: call_tile_func_def)

lemma memory_fold_call_tile_func:
  "memory (fold (call_tile_func tf) as s) = fold tf as (memory s)"
  by (induction as arbitrary: s) (simp_all add: call_tile_func_def)

lemma upt_Suc_shift: "[0..<Suc n] = 0 # map Suc [0..<n]"
  by (simp add: upt_conv_Cons map_Suc_upt del: upt_Suc)

lemma sint_steps_left:
  assumes "(j :: 32 word) <s n"
  shows "nat (sint n - sint j) = Suc (nat (sint n - sint (j + 1)))"
proof -
  have "sint j < sint n" using assms by (simp add: word_sless_alt)
  then show ?thesis using sint_succ_less [OF assms] by simp
qed

lemma mmt4d_inner_loop_eq:
  "mmt4d_inner_loop tf p lhs_panel K32 ots rstride N32 j out_tile rhs_panel s =
   fold (call_tile_func tf)
     (map (\<lambda>b. (out_tile + of_nat b * scast ots, lhs_panel, rhs_panel + of_nat b * rstride,
                 K32, flags p, p))
        [0..<nat (sint N32 - sint j)]) s"
proof (induction tf p lhs_panel K32 ots rstride N32 j out_tile rhs_panel s
    rule: mmt4d_inner_loop.induct)
  case (1 tf p lhs_panel K32 ots rstride N32 j out_tile rhs_panel s)
  show ?case
  proof (cases "j <s N32")
    case False
    then have "nat (sint N32 - sint j) = 0" by (simp add: word_sless_alt)
    with False show ?thesis by (subst mmt4d_inner_loop.simps) simp
  next
    case True
    note step = sint_steps_left [OF True]
    have "mmt4d_inner_loop tf p lhs_panel K32 ots rstride N32 j out_tile rhs_panel s =
      mmt4d_inner_loop tf p lhs_panel K32 ots rstride N32 (j + 1) (out_tile + scast ots)
        (rhs_panel + rstride)
        (call_tile_func tf (out_tile, lhs_panel, rhs_panel, K32, flags p, p) s)"
      using True by (subst mmt4d_inner_loop.simps) simp
    also have "\<dots> = fold (call_tile_func tf)
       (map (\<lambda>b. (out_tile + scast ots + of_nat b * scast ots, lhs_panel,
                   rhs_panel + rstride + of_nat b * rstride, K32, flags p, p))
          [0..<nat (sint N32 - sint (j + 1))])
       (call_tile_func tf (out_tile, lhs_panel, rhs_panel, K32, flags p, p) s)"
      using "1.IH" [OF True] by simp
    also have "\<dots> = fold (call_tile_func tf)
       (map (\<lambda>b. (out_tile + of_nat b * scast ots, lhs_panel, rhs_panel + of_nat b * rstride,
                 K32, flags p, p))
          [0..<nat (sint N32 - sint j)]) s"
      unfolding step upt_Suc_shift
      by (simp add: comp_def algebra_simps)
    finally show ?thesis .
  qed
qed


lemma mmt4d_outer_loop_eq:
  "mmt4d_outer_loop tf p K32 ots lstride rstride ostride N32 M32 i out_tile_row lhs_panel s =
   fold (call_tile_func tf)
     (concat (map (\<lambda>a. map (\<lambda>b. (out_tile_row + of_nat a * ostride + of_nat b * scast ots,
                                   lhs_panel + of_nat a * lstride,
                                   rhs_buffer p + of_nat b * rstride, K32, flags p, p))
                            [0..<nat (sint N32)])
                [0..<nat (sint M32 - sint i)])) s"
proof (induction tf p K32 ots lstride rstride ostride N32 M32 i out_tile_row lhs_panel s
    rule: mmt4d_outer_loop.induct)
  case (1 tf p K32 ots lstride rstride ostride N32 M32 i out_tile_row lhs_panel s)
  show ?case
  proof (cases "i <s M32")
    case False
    then have "nat (sint M32 - sint i) = 0" by (simp add: word_sless_alt)
    with False show ?thesis by (subst mmt4d_outer_loop.simps) simp
  next
    case True
    note step = sint_steps_left [OF True]
    let ?row = "map (\<lambda>b. (out_tile_row + of_nat b * scast ots, lhs_panel,
                           rhs_buffer p + of_nat b * rstride, K32, flags p, p))
                  [0..<nat (sint N32)]"
    have "mmt4d_outer_loop tf p K32 ots lstride rstride ostride N32 M32 i out_tile_row
            lhs_panel s =
      mmt4d_outer_loop tf p K32 ots lstride rstride ostride N32 M32 (i + 1)
        (out_tile_row + ostride) (lhs_panel + lstride)
        (mmt4d_inner_loop tf p lhs_panel K32 ots rstride N32 0 out_tile_row (rhs_buffer p) s)"
      using True by (subst mmt4d_outer_loop.simps) simp
    also have "\<dots> = fold (call_tile_func tf)
       (concat (map (\<lambda>a. map (\<lambda>b. (out_tile_row + ostride + of_nat a * ostride
                                       + of_nat b * scast ots,
                                     lhs_panel + lstride + of_nat a * lstride,
                                     rhs_buffer p + of_nat b * rstride, K32, flags p, p))
                              [0..<nat (sint N32)])
                  [0..<nat (sint M32 - sint (i + 1))]))
       (fold (call_tile_func tf) ?row s)"
      using "1.IH" [OF True] by (simp add: mmt4d_inner_loop_eq)
    also have "\<dots> = fold (call_tile_func tf)
     (concat (map (\<lambda>a. map (\<lambda>b. (out_tile_row + of_nat a * ostride + of_nat b * scast ots,
                                   lhs_panel + of_nat a * lstride,
                                   rhs_buffer p + of_nat b * rstride, K32, flags p, p))
                            [0..<nat (sint N32)])
                [0..<nat (sint M32 - sint i)])) s"
      unfolding step upt_Suc_shift
      by (simp add: comp_def algebra_simps)
    finally show ?thesis .
  qed
qed

lemma using_tile_func_eq:
  "iree_ukernel_mmt4d_using_tile_func p tf s = fold (call_tile_func tf) (driver_calls p) s"
  by (simp add: iree_ukernel_mmt4d_using_tile_func_def Let_def mmt4d_outer_loop_eq
      driver_calls_def)

lemma driver_calls_closed_form:
  assumes "iree_ukernel_mmt4d_validate p = iree_ukernel_mmt4d_status_ok"
    and "in_uint_range (N p) 31" and "out_tile_size_exact p < 2 ^ 31"
  shows "driver_calls p = tile_grid_closed_form p"
proof -
  from assms(1) have range: "in_uint_range (M p) 31" "in_uint_range (M0 p) 15"
      "in_uint_range (N0 p) 15"
    by (simp_all add: validate_ok_iff)
  have m: "nat (sint (ucast (M p) :: 32 word)) = unat (M p)"
    using range(1) by (rule narrow_count) simp
  have n: "nat (sint (ucast (N p) :: 32 word)) = unat (N p)"
    using assms(2) by (rule narrow_count) simp
  note size = scast_out_tile_size [OF range(2,3) assms(3)]
  show ?thesis
    unfolding driver_calls_def tile_grid_closed_form_def tile_args_closed_form_def m n size
    by (simp only: push_bit_eq_mult)
qed

lemma params_wide_tile_valid:
  "iree_ukernel_mmt4d_validate params_wide_tile = iree_ukernel_mmt4d_status_ok"
  by (simp add: validate_ok_iff)
     (simp add: params_wide_tile_def params_unit_def flags_valid_def in_uint_range_def)


lemma driver_calls_empty:
  assumes "M p = 0 \<or> N p = 0"
  shows "driver_calls p = []"
  using assms by (auto simp: driver_calls_def)

text \<open>
  Where \<open>N\<close> lies in \<open>[0, 2^31)\<close> and the tile footprint fits the \<^verbatim>\<open>int32_t\<close> that
  holds it, the loop nest of a validated descriptor makes exactly the calls of the closed
  form, in row-major order (addresses modulo \<open>2^64\<close>).
\<close>

lemma using_tile_func_agrees_where_footprint_fits:
  assumes "iree_ukernel_mmt4d_validate p = iree_ukernel_mmt4d_status_ok"
    and "in_uint_range (N p) 31" and "out_tile_size_exact p < 2 ^ 31"
  shows "iree_ukernel_mmt4d_using_tile_func p tf s =
           fold (call_tile_func tf) (tile_grid_closed_form p) s \<and>
         calls (iree_ukernel_mmt4d_using_tile_func p tf s) = calls s @ tile_grid_closed_form p \<and>
         memory (iree_ukernel_mmt4d_using_tile_func p tf s) =
           fold tf (tile_grid_closed_form p) (memory s) \<and>
         sint (ucast (K p) :: 32 word) = sint (K p)"
proof -
  from assms(1) have "in_uint_range (K p) 31" by (simp add: validate_ok_iff)
  then have "sint (ucast (K p) :: 32 word) = sint (K p)" by (rule narrow_sint) simp
  then show ?thesis
    by (simp add: using_tile_func_eq driver_calls_closed_form [OF assms]
        calls_fold_call_tile_func memory_fold_call_tile_func)
qed

text \<open>
  C2. The claim: for every validated descriptor and every tile function, the loop nest
  calls the tile function once per tile \<open>(i, j)\<close> in row-major order, the output tile at
  \<open>out_buffer + i * (out_stride * out_elem_size) + j * (M0 * N0 * out_elem_size)\<close>.
  The code does not do so on the validated descriptor with \<open>M = 1\<close>, \<open>N = 2\<close>,
  \<open>M0 = N0 = 32767\<close> and the f32 type, every dimension in the documented range: the
  footprint \<open>(32767 * 32767) << 2 = 4294705156\<close> overflows the \<^verbatim>\<open>int32_t out_tile_size\<close>,
  which holds \<open>-262140\<close>, and the second tile of the row is passed
  \<open>out_buffer - 262140\<close> where the closed form has \<open>out_buffer + 4294705156\<close>.
\<close>

theorem using_tile_func_wide_tile_diverges:
  "iree_ukernel_mmt4d_validate params_wide_tile = iree_ukernel_mmt4d_status_ok \<and>
   in_uint_range (N params_wide_tile) 31 \<and>
   calls (iree_ukernel_mmt4d_using_tile_func params_wide_tile tile_func_skip exec_state_init) \<noteq>
     tile_grid_closed_form params_wide_tile \<and>
   fst (calls (iree_ukernel_mmt4d_using_tile_func params_wide_tile tile_func_skip
          exec_state_init) ! 1) = out_buffer params_wide_tile - 262140 \<and>
   fst (tile_grid_closed_form params_wide_tile ! 1) = out_buffer params_wide_tile + 4294705156"
proof -
  have run: "calls (iree_ukernel_mmt4d_using_tile_func params_wide_tile tile_func_skip
      exec_state_init) = driver_calls params_wide_tile"
    by (simp add: using_tile_func_eq calls_fold_call_tile_func exec_state_init_def)
  have code: "fst (driver_calls params_wide_tile ! 1) = 0xFFFFFFFFFFFC0004"
    by (simp add: driver_calls_def params_wide_tile_def params_unit_def out_tile_size_def upt_rec)
  have spec: "fst (tile_grid_closed_form params_wide_tile ! 1) = 0xFFFC0004"
    by (simp add: tile_grid_closed_form_def tile_args_closed_form_def params_wide_tile_def
        params_unit_def upt_rec)
  have differ: "driver_calls params_wide_tile \<noteq> tile_grid_closed_form params_wide_tile"
    using code spec by auto
  have n: "in_uint_range (N params_wide_tile) 31"
    by (simp add: params_wide_tile_def in_uint_range_def)
  have buf: "out_buffer params_wide_tile = 0"
    by (simp add: params_wide_tile_def params_unit_def)
  show ?thesis
    using params_wide_tile_valid n differ code spec by (simp add: run buf)
qed

text \<open>
  C8. For every descriptor with \<open>M = 0\<close> or \<open>N = 0\<close> (validated or not) and every tile
  function, the loop nest returns the state it was given: no call of the tile function is
  recorded and the memory, hence every byte of the output buffer, is unchanged.
\<close>

theorem using_tile_func_empty_grid:
  "M p = 0 \<or> N p = 0 \<Longrightarrow> iree_ukernel_mmt4d_using_tile_func p tf s = s"
  by (simp add: using_tile_func_eq driver_calls_empty)

text \<open>Two validated descriptors with an empty grid, \<open>N = 0\<close> and \<open>M = 0\<close>.\<close>

theorem using_tile_func_empty_grid_witness:
  "iree_ukernel_mmt4d_validate (params_grid_2x2\<lparr>N := 0\<rparr>) = iree_ukernel_mmt4d_status_ok \<and>
   iree_ukernel_mmt4d_using_tile_func (params_grid_2x2\<lparr>N := 0\<rparr>) tile_func_skip
     exec_state_init = exec_state_init \<and>
   iree_ukernel_mmt4d_validate (params_grid_2x2\<lparr>M := 0\<rparr>) = iree_ukernel_mmt4d_status_ok \<and>
   iree_ukernel_mmt4d_using_tile_func (params_grid_2x2\<lparr>M := 0\<rparr>) tile_func_skip
     exec_state_init = exec_state_init"
proof -
  have n: "M (params_grid_2x2\<lparr>N := 0\<rparr>) = 0 \<or> N (params_grid_2x2\<lparr>N := 0\<rparr>) = 0"
    by simp
  have m: "M (params_grid_2x2\<lparr>M := 0\<rparr>) = 0 \<or> N (params_grid_2x2\<lparr>M := 0\<rparr>) = 0"
    by simp
  have valid: "iree_ukernel_mmt4d_validate (params_grid_2x2\<lparr>N := 0\<rparr>) =
      iree_ukernel_mmt4d_status_ok"
    "iree_ukernel_mmt4d_validate (params_grid_2x2\<lparr>M := 0\<rparr>) = iree_ukernel_mmt4d_status_ok"
    by (simp_all add: validate_ok_iff)
       (simp_all add: params_grid_2x2_def params_unit_def flags_valid_def in_uint_range_def)
  show ?thesis
    using using_tile_func_empty_grid [OF n, of tile_func_skip exec_state_init]
      using_tile_func_empty_grid [OF m, of tile_func_skip exec_state_init] valid
    by simp
qed

text \<open>
  C4. The claim: for every descriptor that passes the validation, the arithmetic the
  driver does before the loops, in particular the output tile footprint
  \<open>(M0 * N0) << out_elem_size_log2\<close>, does not overflow a signed 32-bit intermediate.
  The code overflows on the descriptor with \<open>M0 = N0 = 32767\<close> and the f32 type, which
  passes the validation with every dimension in the documented range: the value of the
  footprint is \<open>4294705156\<close>, not below \<open>2^31\<close>, and the 32-bit \<open>out_tile_size\<close> holds
  \<open>-262140\<close> instead.
\<close>

theorem out_tile_size_overflows_int32:
  "iree_ukernel_mmt4d_validate params_wide_tile = iree_ukernel_mmt4d_status_ok \<and>
   in_uint_range (N params_wide_tile) 31 \<and>
   out_tile_size_exact params_wide_tile = 4294705156 \<and>
   \<not> out_tile_size_exact params_wide_tile < 2 ^ 31 \<and>
   sint (out_tile_size params_wide_tile) = - 262140"
proof -
  have n: "in_uint_range (N params_wide_tile) 31"
    by (simp add: params_wide_tile_def in_uint_range_def)
  have exact: "out_tile_size_exact params_wide_tile = 4294705156"
    by (simp add: out_tile_size_exact_def params_wide_tile_def params_unit_def)
  have wrapped: "sint (out_tile_size params_wide_tile) = - 262140"
    by (simp add: out_tile_size_def params_wide_tile_def params_unit_def)
  show ?thesis
    using params_wide_tile_valid n exact wrapped by simp
qed

section \<open>Properties of the resolver and of the entry point\<close>

lemma tile_funcs_differ: "tile_func_count \<noteq> tile_func_skip"
proof
  assume "tile_func_count = tile_func_skip"
  then have "tile_func_count undefined 0 = tile_func_skip undefined 0" by simp
  then show False by (simp add: tile_func_count_def tile_func_skip_def)
qed

lemma mmt4d_status_cases:
  "fst (iree_ukernel_mmt4d arch generic p s) =
     (if iree_ukernel_mmt4d_validate p \<noteq> iree_ukernel_mmt4d_status_ok
      then iree_ukernel_mmt4d_validate p
      else if arch p = None \<and> generic p = None
      then iree_ukernel_mmt4d_status_unsupported_generic_tile_size
      else iree_ukernel_mmt4d_status_ok)"
  by (simp add: iree_ukernel_mmt4d_def Let_def iree_ukernel_mmt4d_select_tile_func_def
      iree_ukernel_mmt4d_select_tile_func_generic_def split: option.splits)

lemma mmt4d_state_cases:
  "snd (iree_ukernel_mmt4d arch generic p s) =
     (if iree_ukernel_mmt4d_validate p \<noteq> iree_ukernel_mmt4d_status_ok then s
      else case arch p of
          Some tf \<Rightarrow> iree_ukernel_mmt4d_using_tile_func p tf s
        | None \<Rightarrow> (case generic p of
              Some tf \<Rightarrow> iree_ukernel_mmt4d_using_tile_func p tf s
            | None \<Rightarrow> s))"
  by (simp add: iree_ukernel_mmt4d_def Let_def iree_ukernel_mmt4d_select_tile_func_def
      iree_ukernel_mmt4d_select_tile_func_generic_def split: option.splits)

lemma validate_status_range:
  "iree_ukernel_mmt4d_validate p \<in>
     {iree_ukernel_mmt4d_status_ok, iree_ukernel_mmt4d_status_bad_flags,
      iree_ukernel_mmt4d_status_bad_type,
      iree_ukernel_mmt4d_status_unsupported_huge_or_negative_dimension}"
proof (cases "flags_valid p")
  case False
  then show ?thesis by (simp add: validate_bad_flags)
next
  case True
  then show ?thesis
    by (cases "type_supported (type p)") (simp_all add: validate_bad_type validate_dims)
qed

lemma provider_budget_examples:
  "provider_budget 4096 tf params_grid_2x2 = Some tf"
  "provider_budget 4096 tf params_wide_tile = None"
  "provider_none p = None"
  by (simp_all add: provider_budget_def provider_none_def out_tile_size_exact_def
      params_grid_2x2_def params_wide_tile_def params_unit_def)

lemma params_grid_2x2_valid:
  "iree_ukernel_mmt4d_validate params_grid_2x2 = iree_ukernel_mmt4d_status_ok"
  by (simp add: validate_ok_iff)
     (simp add: params_grid_2x2_def params_unit_def flags_valid_def in_uint_range_def)

lemma in_ranges_grid_2x2:
  "flags_valid params_grid_2x2" "type_supported (type params_grid_2x2)"
  "in_uint_range (M params_grid_2x2) 31" "in_uint_range (N params_grid_2x2) 31"
  "in_uint_range (K params_grid_2x2) 31" "in_uint_range (M0 params_grid_2x2) 15"
  "in_uint_range (N0 params_grid_2x2) 15" "in_uint_range (K0 params_grid_2x2) 15"
  by (simp_all add: params_grid_2x2_def params_unit_def flags_valid_def in_uint_range_def)

lemma in_ranges_wide_tile:
  "flags_valid params_wide_tile" "type_supported (type params_wide_tile)"
  "in_uint_range (M params_wide_tile) 31" "in_uint_range (N params_wide_tile) 31"
  "in_uint_range (K params_wide_tile) 31" "in_uint_range (M0 params_wide_tile) 15"
  "in_uint_range (N0 params_wide_tile) 15" "in_uint_range (K0 params_wide_tile) 15"
  by (simp_all add: params_wide_tile_def params_unit_def flags_valid_def in_uint_range_def)

text \<open>
  C6. For every descriptor: if the architecture-specific provider returns a tile function,
  the resolver returns that tile function with the status ok, whatever the generic
  provider is (it is not consulted); otherwise the resolver returns exactly the result of
  the generic provider, whose only failure status is unsupported_generic_tile_size.
\<close>

theorem select_tile_func_prefers_arch:
  "(arch p = Some tf \<longrightarrow>
      iree_ukernel_mmt4d_select_tile_func arch generic p = Inr tf \<and>
      iree_ukernel_mmt4d_select_tile_func arch generic' p = Inr tf) \<and>
   (arch p = None \<longrightarrow>
      iree_ukernel_mmt4d_select_tile_func arch generic p =
        iree_ukernel_mmt4d_select_tile_func_generic generic p) \<and>
   (iree_ukernel_mmt4d_select_tile_func_generic generic p = Inl st \<longrightarrow>
      st = iree_ukernel_mmt4d_status_unsupported_generic_tile_size)"
  by (auto simp: iree_ukernel_mmt4d_select_tile_func_def
      iree_ukernel_mmt4d_select_tile_func_generic_def split: option.splits)

text \<open>
  When both providers supply a tile function for the 2 by 2 descriptor, the one of the
  architecture-specific provider is selected; without an architecture-specific tile
  function the generic one is; a tile over the generic budget is refused.
\<close>

theorem select_tile_func_prefers_arch_witness:
  "iree_ukernel_mmt4d_select_tile_func (provider_budget 4096 tile_func_count)
     (provider_budget 4096 tile_func_skip) params_grid_2x2 = Inr tile_func_count \<and>
   tile_func_count \<noteq> tile_func_skip \<and>
   iree_ukernel_mmt4d_select_tile_func provider_none (provider_budget 4096 tile_func_skip)
     params_grid_2x2 = Inr tile_func_skip \<and>
   iree_ukernel_mmt4d_select_tile_func provider_none (provider_budget 4096 tile_func_skip)
     params_wide_tile = Inl iree_ukernel_mmt4d_status_unsupported_generic_tile_size"
proof -
  have small: "out_tile_size_exact params_grid_2x2 = 16"
    by (simp add: out_tile_size_exact_def params_grid_2x2_def params_unit_def)
  have wide: "out_tile_size_exact params_wide_tile = 4294705156"
    by (simp add: out_tile_size_exact_def params_wide_tile_def params_unit_def)
  have a: "provider_budget 4096 tile_func_count params_grid_2x2 = Some tile_func_count"
    by (simp add: provider_budget_def small)
  have n: "provider_none params_grid_2x2 = None" "provider_none params_wide_tile = None"
    by (simp_all add: provider_none_def)
  have g: "iree_ukernel_mmt4d_select_tile_func_generic (provider_budget 4096 tile_func_skip)
      params_grid_2x2 = Inr tile_func_skip"
    by (simp add: iree_ukernel_mmt4d_select_tile_func_generic_def provider_budget_def small)
  have w: "\<exists>st. iree_ukernel_mmt4d_select_tile_func_generic (provider_budget 4096 tile_func_skip)
      params_wide_tile = Inl st"
    by (simp add: iree_ukernel_mmt4d_select_tile_func_generic_def provider_budget_def wide)
  have r1: "iree_ukernel_mmt4d_select_tile_func (provider_budget 4096 tile_func_count)
     (provider_budget 4096 tile_func_skip) params_grid_2x2 = Inr tile_func_count"
    using select_tile_func_prefers_arch [of "provider_budget 4096 tile_func_count"
        params_grid_2x2 tile_func_count] a by blast
  have r2: "iree_ukernel_mmt4d_select_tile_func provider_none
     (provider_budget 4096 tile_func_skip) params_grid_2x2 = Inr tile_func_skip"
    using select_tile_func_prefers_arch [of provider_none params_grid_2x2 _
        "provider_budget 4096 tile_func_skip"] n(1) g by simp
  have r3: "iree_ukernel_mmt4d_select_tile_func provider_none
     (provider_budget 4096 tile_func_skip) params_wide_tile =
       Inl iree_ukernel_mmt4d_status_unsupported_generic_tile_size"
    using select_tile_func_prefers_arch [of provider_none params_wide_tile _
        "provider_budget 4096 tile_func_skip"] n(2) w by auto
  show ?thesis
    using r1 r2 r3 tile_funcs_differ by blast
qed

text \<open>
  C5. Whenever the entry point returns a status other than ok, the state is the one it
  was given: no call of the tile function is recorded and the memory holding the three
  buffers is unchanged. The status is then one of bad_flags, bad_type,
  unsupported_huge_or_negative_dimension and unsupported_generic_tile_size.
\<close>

theorem mmt4d_failure_leaves_state:
  assumes "fst (iree_ukernel_mmt4d arch generic p s) \<noteq> iree_ukernel_mmt4d_status_ok"
  shows "snd (iree_ukernel_mmt4d arch generic p s) = s \<and>
         calls (snd (iree_ukernel_mmt4d arch generic p s)) = calls s \<and>
         memory (snd (iree_ukernel_mmt4d arch generic p s)) = memory s \<and>
         fst (iree_ukernel_mmt4d arch generic p s) \<in>
           {iree_ukernel_mmt4d_status_bad_flags, iree_ukernel_mmt4d_status_bad_type,
            iree_ukernel_mmt4d_status_unsupported_huge_or_negative_dimension,
            iree_ukernel_mmt4d_status_unsupported_generic_tile_size}"
proof -
  have state: "snd (iree_ukernel_mmt4d arch generic p s) = s"
    using assms unfolding mmt4d_status_cases mmt4d_state_cases
    by (auto split: if_splits)
  have status: "fst (iree_ukernel_mmt4d arch generic p s) \<in>
           {iree_ukernel_mmt4d_status_bad_flags, iree_ukernel_mmt4d_status_bad_type,
            iree_ukernel_mmt4d_status_unsupported_huge_or_negative_dimension,
            iree_ukernel_mmt4d_status_unsupported_generic_tile_size}"
    using assms validate_status_range [of p] unfolding mmt4d_status_cases
    by (auto split: if_splits)
  show ?thesis using state status by simp
qed


text \<open>
  A descriptor with an undefined flag bit, and a validated descriptor whose tile no
  provider takes: both calls fail and leave the state alone.
\<close>

theorem mmt4d_failure_leaves_state_witness:
  "iree_ukernel_mmt4d (provider_budget 4096 tile_func_count) provider_none
     (params_grid_2x2\<lparr>flags := 2\<rparr>) exec_state_init =
     (iree_ukernel_mmt4d_status_bad_flags, exec_state_init) \<and>
   iree_ukernel_mmt4d provider_none (provider_budget 4096 tile_func_count)
     params_wide_tile exec_state_init =
     (iree_ukernel_mmt4d_status_unsupported_generic_tile_size, exec_state_init)"
proof -
  have bad: "iree_ukernel_mmt4d_validate (params_grid_2x2\<lparr>flags := 2\<rparr>) =
      iree_ukernel_mmt4d_status_bad_flags"
    by (rule validate_bad_flags)
       (simp add: flags_valid_def IREE_VMVX_MATMUL_FLAG_ACCUMULATE_def)
  have s1: "fst (iree_ukernel_mmt4d (provider_budget 4096 tile_func_count) provider_none
     (params_grid_2x2\<lparr>flags := 2\<rparr>) exec_state_init) = iree_ukernel_mmt4d_status_bad_flags"
    by (simp add: mmt4d_status_cases bad)
  have s2: "fst (iree_ukernel_mmt4d provider_none (provider_budget 4096 tile_func_count)
     params_wide_tile exec_state_init) = iree_ukernel_mmt4d_status_unsupported_generic_tile_size"
    by (simp add: mmt4d_status_cases params_wide_tile_valid provider_budget_examples)
  have r1: "snd (iree_ukernel_mmt4d (provider_budget 4096 tile_func_count) provider_none
     (params_grid_2x2\<lparr>flags := 2\<rparr>) exec_state_init) = exec_state_init"
    using mmt4d_failure_leaves_state [of "provider_budget 4096 tile_func_count" provider_none
        "params_grid_2x2\<lparr>flags := 2\<rparr>" exec_state_init] s1 by simp
  have r2: "snd (iree_ukernel_mmt4d provider_none (provider_budget 4096 tile_func_count)
     params_wide_tile exec_state_init) = exec_state_init"
    using mmt4d_failure_leaves_state [of provider_none "provider_budget 4096 tile_func_count"
        params_wide_tile exec_state_init] s2 by simp
  show ?thesis
    using s1 s2 r1 r2 by (simp add: prod_eq_iff)
qed

text \<open>
  C3 (as amended). For all descriptors with \<open>M, N, K\<close> in \<open>[0, 2^31)\<close>, \<open>M0, N0, K0\<close> in
  \<open>[0, 2^15)\<close>, flags within \<open>{ACCUMULATE}\<close> and a supported type, the entry point returns
  ok when the architecture-specific provider or the generic provider supplies a tile
  function, and unsupported_generic_tile_size when neither does; it never returns one of
  the validation errors.
\<close>

theorem mmt4d_status_of_valid:
  assumes "flags_valid p" "type_supported (type p)"
    and "in_uint_range (M p) 31" "in_uint_range (N p) 31" "in_uint_range (K p) 31"
    and "in_uint_range (M0 p) 15" "in_uint_range (N0 p) 15" "in_uint_range (K0 p) 15"
  shows "fst (iree_ukernel_mmt4d arch generic p s) =
     (if arch p = None \<and> generic p = None
      then iree_ukernel_mmt4d_status_unsupported_generic_tile_size
      else iree_ukernel_mmt4d_status_ok)"
proof -
  have "iree_ukernel_mmt4d_validate p = iree_ukernel_mmt4d_status_ok"
    using assms by (simp add: validate_ok_iff)
  then show ?thesis by (simp add: mmt4d_status_cases)
qed

text \<open>
  The 2 by 2 descriptor with the counting tile function from the generic provider: status
  ok, four calls, and the calls recorded are the closed-form grid.
\<close>

theorem mmt4d_status_of_valid_witness:
  "iree_ukernel_mmt4d provider_none (provider_budget 4096 tile_func_count)
     params_grid_2x2 exec_state_init =
     (iree_ukernel_mmt4d_status_ok,
      \<lparr>memory = 4, calls = tile_grid_closed_form params_grid_2x2\<rparr>)"
proof -
  have status: "fst (iree_ukernel_mmt4d provider_none (provider_budget 4096 tile_func_count)
     params_grid_2x2 exec_state_init) = iree_ukernel_mmt4d_status_ok"
    using mmt4d_status_of_valid [OF in_ranges_grid_2x2, of provider_none
        "provider_budget 4096 tile_func_count" exec_state_init]
    by (simp add: provider_budget_examples)
  have size: "out_tile_size_exact params_grid_2x2 < 2 ^ 31"
    by (simp add: out_tile_size_exact_def params_grid_2x2_def params_unit_def)
  have grid: "driver_calls params_grid_2x2 = tile_grid_closed_form params_grid_2x2"
    using params_grid_2x2_valid in_ranges_grid_2x2(4) size by (rule driver_calls_closed_form)
  have len: "length (tile_grid_closed_form params_grid_2x2) = 4"
    by (simp add: tile_grid_closed_form_def params_grid_2x2_def upt_rec)
  have count: "fold tile_func_count as m = length as + m" for as m
    by (induction as arbitrary: m) (simp_all add: tile_func_count_def)
  have state: "snd (iree_ukernel_mmt4d provider_none (provider_budget 4096 tile_func_count)
     params_grid_2x2 exec_state_init) =
       \<lparr>memory = 4, calls = tile_grid_closed_form params_grid_2x2\<rparr>"
    by (simp add: mmt4d_state_cases params_grid_2x2_valid provider_budget_examples
        using_tile_func_eq grid exec_state.equality calls_fold_call_tile_func
        memory_fold_call_tile_func count len exec_state_init_def)
  show ?thesis
    using status state by (simp add: prod_eq_iff)
qed

text \<open>
  C3 as stated fails: the descriptor with 32767 by 32767 tiles has every field in range,
  and with no architecture-specific tile function and a generic provider that refuses
  tiles over its budget of 4096 bytes the entry point returns
  unsupported_generic_tile_size.
\<close>

theorem mmt4d_status_of_valid_counterexample:
  "flags_valid params_wide_tile \<and> type_supported (type params_wide_tile) \<and>
   in_uint_range (M params_wide_tile) 31 \<and> in_uint_range (N params_wide_tile) 31 \<and>
   in_uint_range (K params_wide_tile) 31 \<and> in_uint_range (M0 params_wide_tile) 15 \<and>
   in_uint_range (N0 params_wide_tile) 15 \<and> in_uint_range (K0 params_wide_tile) 15 \<and>
   fst (iree_ukernel_mmt4d provider_none (provider_budget 4096 tile_func_count)
     params_wide_tile exec_state_init) =
     iree_ukernel_mmt4d_status_unsupported_generic_tile_size \<and>
   fst (iree_ukernel_mmt4d provider_none (provider_budget 4096 tile_func_count)
     params_wide_tile exec_state_init) \<noteq> iree_ukernel_mmt4d_status_ok"
  using in_ranges_wide_tile
  by (simp add: mmt4d_status_cases params_wide_tile_valid provider_budget_examples)

end
